theory Spec2Isabelle
  imports
    Complex_Main
    "HOL-Library.Char_ord"
    "HOL-Library.List_Lexorder"
    "HOL-Library.Sublist"
begin

section \<open>Python values, exceptions and strings\<close>

text \<open>
  The repository is three Python modules: \<^verbatim>\<open>AI_supervisor.py\<close> (the three-node
  pipeline and its decision table), \<^verbatim>\<open>content_validation.py\<close> (text loading, the
  Hijri date pass, the LLM call) and \<^verbatim>\<open>authenticity_validation_old.py\<close> (the PDF
  inspection and its validity rule; its first line names it
  \<^verbatim>\<open>authenticity_validation.py\<close>, the module the supervisor imports).

  A Python \<^verbatim>\<open>str\<close> is modelled as an Isabelle \<open>string\<close>. A character outside ASCII
  is held as the bytes of its UTF-8 encoding, which keeps concatenation, equality,
  substring search and the code point order of Python strings.

  A raised exception is a value \<open>Exception msg\<close>, where \<open>msg\<close> is what \<^verbatim>\<open>str(e)\<close>
  gives; a call that may raise returns \<open>exn + 'a\<close> with \<open>Inl\<close> for the raise.
\<close>

datatype exn = Exception string

text \<open>
  The values \<^verbatim>\<open>json.loads\<close> can return and the dictionaries the modules build.
  A dictionary is an association list with distinct keys, read with \<open>map_of\<close>.
\<close>

datatype pyval =
    PNone
  | PBool bool
  | PInt int
  | PFloat real
  | PStr string
  | PList "pyval list"
  | PDict "(string \<times> pyval) list"

type_synonym pydict = "(string \<times> pyval) list"

text \<open>\<^verbatim>\<open>d.get(k)\<close> and \<^verbatim>\<open>d.get(k, default)\<close>.\<close>

definition dict_get :: "pydict \<Rightarrow> string \<Rightarrow> pyval" where
  "dict_get d k = (case map_of d k of None \<Rightarrow> PNone | Some v \<Rightarrow> v)"

definition dict_get_default :: "pydict \<Rightarrow> string \<Rightarrow> pyval \<Rightarrow> pyval" where
  "dict_get_default d k dflt = (case map_of d k of None \<Rightarrow> dflt | Some v \<Rightarrow> v)"

text \<open>
  The characters Python counts as white space (\<^verbatim>\<open>str.isspace\<close>, which
  \<^verbatim>\<open>str.strip\<close> and the pattern class \<^verbatim>\<open>\s\<close> use), each as its UTF-8 bytes:
  U+0009 to U+000D, U+001C to U+0020, U+0085, U+00A0, U+1680, U+2000 to U+200A,
  U+2028, U+2029, U+202F, U+205F and U+3000.
\<close>

definition py_whitespace :: "string list" where
  "py_whitespace =
     map (\<lambda>c. [c]) [CHR 0x09, CHR 0x0A, CHR 0x0B, CHR 0x0C, CHR 0x0D,
                     CHR 0x1C, CHR 0x1D, CHR 0x1E, CHR 0x1F, CHR 0x20]
     @ [[CHR 0xC2, CHR 0x85], [CHR 0xC2, CHR 0xA0], [CHR 0xE1, CHR 0x9A, CHR 0x80]]
     @ map (\<lambda>c. [CHR 0xE2, CHR 0x80, c])
         [CHR 0x80, CHR 0x81, CHR 0x82, CHR 0x83, CHR 0x84, CHR 0x85, CHR 0x86,
          CHR 0x87, CHR 0x88, CHR 0x89, CHR 0x8A, CHR 0xA8, CHR 0xA9, CHR 0xAF]
     @ [[CHR 0xE2, CHR 0x81, CHR 0x9F], [CHR 0xE3, CHR 0x80, CHR 0x80]]"

text \<open>The length of the white space character a string starts with (0 when none).\<close>

definition space_prefix_len :: "string \<Rightarrow> nat" where
  "space_prefix_len s =
     (case filter (\<lambda>w. prefix w s) py_whitespace of [] \<Rightarrow> 0 | w # _ \<Rightarrow> length w)"

definition space_suffix_len :: "string \<Rightarrow> nat" where
  "space_suffix_len s =
     (case filter (\<lambda>w. suffix w s) py_whitespace of [] \<Rightarrow> 0 | w # _ \<Rightarrow> length w)"

text \<open>
  \<^verbatim>\<open>s.lstrip()\<close>, \<^verbatim>\<open>s.rstrip()\<close> and \<^verbatim>\<open>s.strip()\<close>. The first argument bounds
  the number of characters removed; \<open>length s\<close> is always enough.
\<close>

fun lstrip_n :: "nat \<Rightarrow> string \<Rightarrow> string" where
  "lstrip_n 0 s = s"
| "lstrip_n (Suc n) s =
     (if space_prefix_len s = 0 then s else lstrip_n n (drop (space_prefix_len s) s))"

fun rstrip_n :: "nat \<Rightarrow> string \<Rightarrow> string" where
  "rstrip_n 0 s = s"
| "rstrip_n (Suc n) s =
     (if space_suffix_len s = 0 then s
      else rstrip_n n (take (length s - space_suffix_len s) s))"

definition strip :: "string \<Rightarrow> string" where
  "strip s = rstrip_n (length s) (lstrip_n (length s) s)"

text \<open>\<^verbatim>\<open>s.lower()\<close> and \<^verbatim>\<open>s.upper()\<close> on the ASCII letters.\<close>

definition lower_char :: "char \<Rightarrow> char" where
  "lower_char c =
     (if CHR ''A'' \<le> c \<and> c \<le> CHR ''Z'' then char_of (of_char c + (32::nat)) else c)"

definition upper_char :: "char \<Rightarrow> char" where
  "upper_char c =
     (if CHR ''a'' \<le> c \<and> c \<le> CHR ''z'' then char_of (of_char c - (32::nat)) else c)"

definition lower :: "string \<Rightarrow> string" where
  "lower s = map lower_char s"

definition upper :: "string \<Rightarrow> string" where
  "upper s = map upper_char s"

text \<open>\<^verbatim>\<open>sep.join(parts)\<close>.\<close>

fun join :: "string \<Rightarrow> string list \<Rightarrow> string" where
  "join sep [] = []"
| "join sep [x] = x"
| "join sep (x # y # ys) = x @ sep @ join sep (y # ys)"

text \<open>
  \<^verbatim>\<open>s.replace(old, new)\<close>: every occurrence of \<open>old\<close>, found from the left and
  not overlapping, becomes \<open>new\<close>; an empty \<open>old\<close> matches between all characters.
\<close>

function replace :: "string \<Rightarrow> string \<Rightarrow> string \<Rightarrow> string" where
  "replace old new [] = (if old = [] then new else [])"
| "replace old new (c # cs) =
     (if old = [] then new @ c # replace old new cs
      else if prefix old (c # cs) then new @ replace old new (drop (length old) (c # cs))
      else c # replace old new cs)"
  by pat_completeness auto
termination
  by (relation "measure (\<lambda>(old, new, s). length s)") auto


section \<open>The world outside the program\<close>

text \<open>
  A path of the file system is absent, a file or a directory. \<open>File r\<close> holds what
  opening and reading the file as UTF-8 text gives: its text, or the exception raised.
  A directory holds its entries by name and, as \<open>Absent\<close> does, the exception that
  \<^verbatim>\<open>open\<close> raises on such a path. Directories can always be listed.
\<close>

datatype fsnode =
    Absent exn
  | File "exn + string"
  | Dir "(string \<times> fsnode) list" exn

text \<open>
  What \<^verbatim>\<open>pypdfium2\<close> reports on an opened document: the metadata dictionary,
  for each page whether \<^verbatim>\<open>pdf[i].has_signature()\<close> holds, whether the document is
  encrypted, each of them possibly raising, and the exception \<^verbatim>\<open>pdf.close()\<close>
  raises, if any.
\<close>

record pdfdoc =
  doc_metadata :: "exn + (string \<times> string) list"
  doc_pages :: "(exn + bool) list"
  doc_is_encrypted :: "exn + bool"
  doc_close :: "exn option"

text \<open>
  The collaborators the modules call: the file system, \<^verbatim>\<open>tempfile.mkdtemp\<close>, the
  Surya OCR pipeline (whether it could be imported, and the markdown it produces for
  each page of an input, written to the output directory), the Hijri converter
  (\<^verbatim>\<open>convert.Hijri(y, m, d).to_gregorian().strftime('%Y-%m-%d')\<close>), the LLM endpoint
  (credential and prompt to completion), \<^verbatim>\<open>json.loads\<close>, how Python prints a value
  that is not a string, and \<^verbatim>\<open>pdfium.PdfDocument\<close>.
\<close>

record env =
  fs_lookup :: "string \<Rightarrow> fsnode"
  mkdtemp :: "exn + string"
  surya_available :: bool
  ocr_pages :: "string \<Rightarrow> string \<Rightarrow> exn + string list"
  hijri_to_gregorian :: "int \<Rightarrow> int \<Rightarrow> int \<Rightarrow> exn + string"
  llm_ask :: "string \<Rightarrow> string \<Rightarrow> exn + string"
  json_loads :: "string \<Rightarrow> exn + pyval"
  py_format :: "pyval \<Rightarrow> string"
  pdf_open :: "string \<Rightarrow> exn + pdfdoc"

section \<open>content\_validation.py\<close>

text \<open>\<^verbatim>\<open>read_markdown_file\<close>: open the path and read all of it.\<close>

fun read_markdown_file :: "fsnode \<Rightarrow> exn + string" where
  "read_markdown_file (Absent e) = Inl e"
| "read_markdown_file (File r) = r"
| "read_markdown_file (Dir entries e) = Inl e"

subsection \<open>The Hijri date pass\<close>

text \<open>
  The pattern is \<^verbatim>\<open>(\d{1,2})[/-](\d{1,2})[/-](\d{2,4})\s*(W|A)?\<close>, where \<open>W\<close> is the
  Arabic word U+0647 U+062C U+0631 U+064A and \<open>A\<close> the abbreviation U+0647 U+0640.
  The class \<^verbatim>\<open>\d\<close> is modelled on the ASCII digits (Python also accepts the decimal
  digits of other scripts, here and in \<^verbatim>\<open>int\<close>).

  Each part of the pattern gives the ways it can match at the start of a text, in the
  order a backtracking matcher tries them; a way is the text matched and the text left.
\<close>

definition is_digit :: "char \<Rightarrow> bool" where
  "is_digit c = (CHR ''0'' \<le> c \<and> c \<le> CHR ''9'')"

text \<open>\<^verbatim>\<open>\d{lo,hi}\<close>, greedy: most digits first.\<close>

definition digits_between :: "nat \<Rightarrow> nat \<Rightarrow> string \<Rightarrow> (string \<times> string) list" where
  "digits_between lo hi s =
     (let n = length (takeWhile is_digit (take hi s))
      in map (\<lambda>k. (take k s, drop k s)) (rev [lo..<Suc n]))"

text \<open>\<^verbatim>\<open>[/-]\<close>.\<close>

fun separator :: "string \<Rightarrow> string list" where
  "separator [] = []"
| "separator (c # cs) = (if c = CHR ''/'' \<or> c = CHR ''-'' then [cs] else [])"

text \<open>\<^verbatim>\<open>\s*\<close>, greedy; the first argument bounds the number of characters.\<close>

fun spaces_n :: "nat \<Rightarrow> string \<Rightarrow> string list" where
  "spaces_n 0 s = [s]"
| "spaces_n (Suc n) s =
     (if space_prefix_len s = 0 then [s]
      else spaces_n n (drop (space_prefix_len s) s) @ [s])"

definition hijri_word :: string where
  "hijri_word = [CHR 0xD9, CHR 0x87, CHR 0xD8, CHR 0xAC, CHR 0xD8, CHR 0xB1, CHR 0xD9, CHR 0x8A]"

definition hijri_abbrev :: string where
  "hijri_abbrev = [CHR 0xD9, CHR 0x87, CHR 0xD9, CHR 0x80]"

text \<open>The optional fourth group: the word, the abbreviation, or nothing.\<close>

definition marker :: "string \<Rightarrow> (string \<times> string) list" where
  "marker s =
     (if prefix hijri_word s then [(hijri_word, drop (length hijri_word) s)] else [])
     @ (if prefix hijri_abbrev s then [(hijri_abbrev, drop (length hijri_abbrev) s)] else [])
     @ [([], s)]"

text \<open>
  All matches of the pattern at the start of a text, as the four groups and the text
  left after the match; the first one is the match \<^verbatim>\<open>re\<close> reports.
\<close>

definition match_here :: "string \<Rightarrow> (string \<times> string \<times> string \<times> string \<times> string) list" where
  "match_here s =
     [(day, month, year, mark, r7).
        (day, r1) \<leftarrow> digits_between 1 2 s,
        r2 \<leftarrow> separator r1,
        (month, r3) \<leftarrow> digits_between 1 2 r2,
        r4 \<leftarrow> separator r3,
        (year, r5) \<leftarrow> digits_between 2 4 r4,
        r6 \<leftarrow> spaces_n (length r5) r5,
        (mark, r7) \<leftarrow> marker r6]"

text \<open>
  \<^verbatim>\<open>re.findall(hijri_date_pattern, text)\<close>: the groups of every match, scanning from
  the left; after a match the scan goes on where the match ended. The first argument
  counts the characters of the last match still to be skipped.
\<close>

fun findall_from :: "nat \<Rightarrow> string \<Rightarrow> (string \<times> string \<times> string \<times> string) list" where
  "findall_from skip [] = []"
| "findall_from skip (c # cs) =
     (if 0 < skip then findall_from (skip - 1) cs
      else case match_here (c # cs) of
             [] \<Rightarrow> findall_from 0 cs
           | (day, month, year, mark, rest) # _ \<Rightarrow>
               (day, month, year, mark) # findall_from (length cs - length rest) cs)"

definition findall :: "string \<Rightarrow> (string \<times> string \<times> string \<times> string) list" where
  "findall s = findall_from 0 s"

text \<open>\<^verbatim>\<open>int(s)\<close> on a string of ASCII digits.\<close>

definition py_int :: "string \<Rightarrow> int" where
  "py_int s = foldl (\<lambda>a c. 10 * a + (int (of_char c) - 48)) 0 s"

text \<open>
  One round of the loop of \<^verbatim>\<open>convert_hijri_to_gregorian\<close>: convert the date of the
  match, rebuild the date text with slashes, replace it everywhere in the text; when
  the conversion raises, go on with the text as it is.
\<close>

definition hijri_step :: "env \<Rightarrow> string \<Rightarrow> string \<times> string \<times> string \<times> string \<Rightarrow> string" where
  "hijri_step w txt m =
     (case m of (day, month, year, mark) \<Rightarrow>
        (case hijri_to_gregorian w (py_int year) (py_int month) (py_int day) of
           Inl e \<Rightarrow> txt
         | Inr gregorian_str \<Rightarrow>
             (let hijri_str = day @ ''/'' @ month @ ''/'' @ year
              in replace hijri_str gregorian_str txt)))"

definition convert_hijri_to_gregorian :: "env \<Rightarrow> string \<Rightarrow> string" where
  "convert_hijri_to_gregorian w txt = foldl (hijri_step w) txt (findall txt)"

subsection \<open>Extraction\<close>

text \<open>
  \<^verbatim>\<open>create_markdown_from_input\<close>: raise when Surya is missing; otherwise every
  page's markdown goes through the date pass and is followed by a newline.
\<close>

definition create_markdown_from_input :: "env \<Rightarrow> string \<Rightarrow> string \<Rightarrow> exn + string \<times> string" where
  "create_markdown_from_input w path output_dir =
     (if \<not> surya_available w
      then Inl (Exception ''Surya OCR not available for markdown creation'')
      else case ocr_pages w path output_dir of
             Inl e \<Rightarrow> Inl e
           | Inr pages \<Rightarrow>
               Inr (concat (map (\<lambda>markdown_text. convert_hijri_to_gregorian w markdown_text @ [CHR 0x0A]) pages),
                    output_dir))"

subsection \<open>The LLM verdict\<close>

definition prompt_head :: string where
  \<open>prompt_head =
     ''You are an expert document verification system for injury incident reports in Saudi Arabia.'' @ [CHR 0x0A]
     @ ''The document may contain both English and Arabic text.'' @ [CHR 0x0A]
     @ [CHR 0x0A]
     @ ''Your task: Validate whether this text is valid.'' @ [CHR 0x0A]
     @ [CHR 0x0A]
     @ ''Check the following criteria:'' @ [CHR 0x0A]
     @ ''1. Presence of any of the sources "Police", "Fire", "Red Crescent" or "Najm". The names can be in Arabic as well.'' @ [CHR 0x0A]
     @ ''2. Presence of document type such as "Medical Report", "Referral", "Electronic Patient Care Report (ePCR)" or "Treatment Approval".'' @ [CHR 0x0A]
     @ ''3. Presence of date (Gregorian or Hijri, not future dated) in DD/MM/YYYY format.'' @ [CHR 0x0A]
     @ ''4. Presence of patient details (name, ID/passport, gender, DOB/age).'' @ [CHR 0x0A]
     @ ''5. Bilingual content (English + Arabic sections).'' @ [CHR 0x0A]
     @ ''6. Medical or humanitarian context (diagnosis, treatment, etc.).'' @ [CHR 0x0A]
     @ ''7. No obvious template text or paceholder content'' @ [CHR 0x0A]
     @ [CHR 0x0A]
     @ ''Respond strictly in this JSON format:'' @ [CHR 0x0A]
     @ ''{'' @ [CHR 0x0A]
     @ ''  "status": "validated" or "not validated",'' @ [CHR 0x0A]
     @ ''  "reason": "Explain clearly why the document was marked valid or invalid",'' @ [CHR 0x0A]
     @ ''  "fields_detected": {'' @ [CHR 0x0A]
     @ ''      "authority_name": "string or null",'' @ [CHR 0x0A]
     @ ''      "reference_number": "string or null",'' @ [CHR 0x0A]
     @ ''      "date": "string or null",'' @ [CHR 0x0A]
     @ ''      "document_type": "string or null",'' @ [CHR 0x0A]
     @ ''      "patient_name": "string or null",'' @ [CHR 0x0A]
     @ ''      "diagnosis_or_procedure": "string or null",'' @ [CHR 0x0A]
     @ ''      "signature_or_stamp": "string or null",'' @ [CHR 0x0A]
     @ ''      "is_bilingual": true or false'' @ [CHR 0x0A]
     @ ''  },'' @ [CHR 0x0A]
     @ ''  "completeness_score": 0.0,'' @ [CHR 0x0A]
     @ ''  "authenticity_score": 0.0,'' @ [CHR 0x0A]
     @ ''  "final_decision": "Valid" or "Invalid" or "Needs Manual Review"'' @ [CHR 0x0A]
     @ ''}'' @ [CHR 0x0A]
     @ [CHR 0x0A]
     @ ''Text to validate:'' @ [CHR 0x0A]
     @ ''"""''\<close>

definition prompt_tail :: string where
  \<open>prompt_tail =
     ''"""'' @ [CHR 0x0A]\<close>

definition prompt :: "string \<Rightarrow> string" where
  "prompt txt = prompt_head @ txt @ prompt_tail"

definition fallback_result :: pydict where
  "fallback_result = [(''status'', PStr ''not validated''), (''final_decision'', PStr ''Invalid'')]"

text \<open>
  \<^verbatim>\<open>validate_document\<close>: the call of the LLM is outside the \<^verbatim>\<open>try\<close> and may raise;
  a completion that \<^verbatim>\<open>json.loads\<close> rejects gives the fallback.
\<close>

definition validate_document :: "env \<Rightarrow> string \<Rightarrow> string \<Rightarrow> exn + pyval" where
  "validate_document w key txt =
     (case llm_ask w key (prompt txt) of
        Inl e \<Rightarrow> Inl e
      | Inr completion \<Rightarrow>
          (case json_loads w (strip completion) of
             Inl e \<Rightarrow> Inr (PDict fallback_result)
           | Inr result \<Rightarrow> Inr result))"

subsection \<open>Loading the text\<close>

text \<open>
  \<^verbatim>\<open>Path(p).suffix\<close> on POSIX: the final component of the path, from its last dot,
  when that dot is neither its first nor its last character.
\<close>

fun split_slash :: "string \<Rightarrow> string list" where
  "split_slash [] = [[]]"
| "split_slash (c # cs) =
     (if c = CHR ''/'' then [] # split_slash cs
      else (case split_slash cs of [] \<Rightarrow> [[c]] | p # ps \<Rightarrow> (c # p) # ps))"

definition path_name :: "string \<Rightarrow> string" where
  "path_name p =
     (case filter (\<lambda>part. part \<noteq> [] \<and> part \<noteq> ''.'') (split_slash p) of
        [] \<Rightarrow> []
      | part # parts \<Rightarrow> last (part # parts))"

definition path_suffix :: "string \<Rightarrow> string" where
  "path_suffix p =
     (let name = path_name p;
          after = length (takeWhile (\<lambda>c. c \<noteq> CHR ''.'') (rev name))
      in if CHR ''.'' \<in> set name \<and> 0 < after \<and> Suc after < length name
         then drop (length name - Suc after) name else [])"

definition endswith :: "string \<Rightarrow> string \<Rightarrow> bool" where
  "endswith s x = suffix x s"

definition is_dir :: "fsnode \<Rightarrow> bool" where
  "is_dir node = (case node of Dir entries e \<Rightarrow> True | _ \<Rightarrow> False)"

definition path_exists :: "fsnode \<Rightarrow> bool" where
  "path_exists node = (case node of Absent e \<Rightarrow> False | _ \<Rightarrow> True)"

text \<open>\<^verbatim>\<open>os.listdir\<close>: the names of the entries, in the directory's own order.\<close>

definition listdir :: "fsnode \<Rightarrow> string list" where
  "listdir node = (case node of Dir entries e \<Rightarrow> map fst entries | _ \<Rightarrow> [])"

text \<open>
  \<^verbatim>\<open>folder.glob("*.md")\<close>: the entries whose name the pattern matches, that is the
  names that end in \<^verbatim>\<open>.md\<close> (POSIX: the case counts, dot files match).
\<close>

definition glob_md :: "fsnode \<Rightarrow> (string \<times> fsnode) list" where
  "glob_md node =
     (case node of Dir entries e \<Rightarrow> filter (\<lambda>entry. endswith (fst entry) ''.md'') entries | _ \<Rightarrow> [])"

text \<open>Reading the files in turn: the first failure is raised.\<close>

fun read_all :: "fsnode list \<Rightarrow> exn + string list" where
  "read_all [] = Inr []"
| "read_all (f # fs) =
     (case read_markdown_file f of
        Inl e \<Rightarrow> Inl e
      | Inr t \<Rightarrow> (case read_all fs of Inl e \<Rightarrow> Inl e | Inr ts \<Rightarrow> Inr (t # ts)))"

text \<open>
  The first part of \<^verbatim>\<open>validate_content\<close>, up to the point where \<^verbatim>\<open>combined_text\<close>
  is known: \<open>Inl e\<close> when an exception leaves the function, \<open>Inr (Inl d)\<close> when the
  function returns the dictionary \<open>d\<close> early, \<open>Inr (Inr t)\<close> for the combined text.
  The paths of a directory are sorted as \<^verbatim>\<open>Path\<close> objects, which in one folder is
  the order of their names.
\<close>

definition load_combined_text :: "env \<Rightarrow> string \<Rightarrow> exn + (pydict + string)" where
  "load_combined_text w path =
     (let node = fs_lookup w path in
      if is_dir node \<and> list_ex (\<lambda>f. endswith f ''.md'') (listdir node) then
        (let md_files = sort_key fst (glob_md node) in
         case read_all (map snd md_files) of
           Inl e \<Rightarrow> Inl e
         | Inr texts \<Rightarrow> Inr (Inr (join [CHR 0x0A, CHR 0x0A] texts)))
      else if lower (path_suffix path) = ''.md'' then
        (case read_markdown_file node of
           Inl e \<Rightarrow> Inl e
         | Inr t \<Rightarrow> Inr (Inr t))
      else
        (case mkdtemp w of
           Inl e \<Rightarrow> Inl e
         | Inr temp_dir \<Rightarrow>
             (case create_markdown_from_input w path temp_dir of
                Inl (Exception msg) \<Rightarrow>
                  Inr (Inl [(''status'', PStr ''error''),
                            (''reason'', PStr (''Failed to create markdown from input: '' @ msg))])
              | Inr (combined_text, out) \<Rightarrow> Inr (Inr combined_text))))"

text \<open>\<^verbatim>\<open>validate_content\<close>: the date pass over the combined text, then the LLM.\<close>

definition validate_content :: "env \<Rightarrow> string \<Rightarrow> string \<Rightarrow> exn + pyval" where
  "validate_content w key path =
     (case load_combined_text w path of
        Inl e \<Rightarrow> Inl e
      | Inr (Inl d) \<Rightarrow> Inr (PDict d)
      | Inr (Inr combined_text) \<Rightarrow>
          validate_document w key (convert_hijri_to_gregorian w combined_text))"


section \<open>authenticity\_validation\_old.py\<close>

text \<open>
  The signature loop of \<^verbatim>\<open>authenticate_pdf\<close>: the pages in order, stopping at the
  first page with a signature; an exception leaves the loop.
\<close>

fun scan_signatures :: "(exn + bool) list \<Rightarrow> exn + bool" where
  "scan_signatures [] = Inr False"
| "scan_signatures (Inl e # pages) = Inl e"
| "scan_signatures (Inr True # pages) = Inr True"
| "scan_signatures (Inr False # pages) = scan_signatures pages"

text \<open>
  The inner \<^verbatim>\<open>try\<close>: an exception in the loop is passed over, and
  \<^verbatim>\<open>has_signature\<close> is still \<^verbatim>\<open>False\<close> then.
\<close>

definition has_signature :: "pdfdoc \<Rightarrow> bool" where
  "has_signature pdf = (case scan_signatures (doc_pages pdf) of Inl e \<Rightarrow> False | Inr b \<Rightarrow> b)"

text \<open>The validation logic: status and reason from the three findings.\<close>

definition validation_logic :: "nat \<Rightarrow> bool \<Rightarrow> bool \<Rightarrow> string \<times> string" where
  "validation_logic total_pages has_sig is_encrypted =
     (if total_pages < 1 then (''not validated'', ''Empty document'')
      else if has_sig \<and> \<not> is_encrypted then
        (''validated'', ''Validated via digital signature and no encryption'')
      else if \<not> has_sig \<and> \<not> is_encrypted then
        (''validated'', ''Validated via open document with no encryption'')
      else (''not validated'', ''Document is encrypted or lacks valid signature''))"

definition metadata_get :: "(string \<times> string) list \<Rightarrow> string \<Rightarrow> string \<Rightarrow> string" where
  "metadata_get metadata k dflt = (case map_of metadata k of None \<Rightarrow> dflt | Some v \<Rightarrow> v)"

text \<open>The dictionary returned for a missing file or a caught exception.\<close>

definition not_validated :: "string \<Rightarrow> pydict" where
  "not_validated reason =
     [(''status'', PStr ''not validated''),
      (''reason'', PStr reason),
      (''metadata'', PDict []),
      (''has_signature'', PBool False),
      (''is_encrypted'', PBool False)]"

text \<open>
  The body of the \<^verbatim>\<open>try\<close> once the document is open; every exception in it is
  caught and reported as a reason.
\<close>

definition inspect_pdf :: "pdfdoc \<Rightarrow> pydict" where
  "inspect_pdf pdf =
     (case doc_metadata pdf of
        Inl (Exception msg) \<Rightarrow> not_validated (''Error during authentication: '' @ msg)
      | Inr metadata \<Rightarrow>
          (let has_sig = has_signature pdf in
           case doc_is_encrypted pdf of
             Inl (Exception msg) \<Rightarrow> not_validated (''Error during authentication: '' @ msg)
           | Inr is_encrypted \<Rightarrow>
               (case validation_logic (length (doc_pages pdf)) has_sig is_encrypted of
                  (status, reason) \<Rightarrow>
                    [(''status'', PStr status),
                     (''reason'', PStr reason),
                     (''metadata'', PDict
                        [(''title'', PStr (metadata_get metadata ''title'' [])),
                         (''author'', PStr (metadata_get metadata ''author'' [])),
                         (''creator'', PStr (metadata_get metadata ''creator'' [])),
                         (''producer'', PStr (metadata_get metadata ''producer'' [])),
                         (''creation_date'', PStr (metadata_get metadata ''creationDate'' [])),
                         (''mod_date'', PStr (metadata_get metadata ''modDate'' [])),
                         (''total_pages'', PInt (int (length (doc_pages pdf)))),
                         (''has_signature'', PBool has_sig),
                         (''is_encrypted'', PBool is_encrypted)])])))"

text \<open>
  \<^verbatim>\<open>authenticate_pdf\<close>. The \<^verbatim>\<open>finally\<close> clause closes the document when it was
  opened; an exception of \<^verbatim>\<open>close\<close> is the only one that leaves the function.
\<close>

definition authenticate_pdf :: "env \<Rightarrow> string \<Rightarrow> exn + pydict" where
  "authenticate_pdf w pdf_path =
     (if \<not> path_exists (fs_lookup w pdf_path) then Inr (not_validated ''File not found'')
      else case pdf_open w pdf_path of
             Inl (Exception msg) \<Rightarrow> Inr (not_validated (''Error during authentication: '' @ msg))
           | Inr pdf \<Rightarrow>
               (let result = inspect_pdf pdf in
                case doc_close pdf of None \<Rightarrow> Inr result | Some e \<Rightarrow> Inl e))"

section \<open>The verdicts and the supervisor (AI\_supervisor.py)\<close>

text \<open>
  The dictionary with the keys \<^verbatim>\<open>status\<close>, \<^verbatim>\<open>result\<close> and \<^verbatim>\<open>message\<close> that a
  stage hands to the pipeline. \<open>v_result\<close> is \<open>None\<close> for Python's \<^verbatim>\<open>None\<close>.
\<close>

record verdict =
  v_status :: string
  v_result :: "pydict option"
  v_message :: string

text \<open>\<^verbatim>\<open>validate_authentication\<close>: the entry point of the authenticity module.\<close>

definition validate_authentication :: "env \<Rightarrow> string \<Rightarrow> string \<Rightarrow> exn + verdict" where
  "validate_authentication w key path =
     (case authenticate_pdf w path of
        Inl e \<Rightarrow> Inl e
      | Inr result \<Rightarrow>
          (case (if dict_get result ''status'' = PStr ''not validated''
                 then (''not validated'', dict_get_default result ''reason'' (PStr ''Validation failed''))
                 else (''validated'', dict_get_default result ''reason'' (PStr ''Validated''))) of
             (status, reason) \<Rightarrow>
               Inr \<lparr>v_status = ''success'',
                    v_result = Some
                      [(''status'', PStr status),
                       (''reason'', reason),
                       (''metadata'', dict_get_default result ''metadata'' (PDict [])),
                       (''has_signature'', dict_get_default result ''has_signature'' (PBool False)),
                       (''is_encrypted'', dict_get_default result ''is_encrypted'' (PBool False))],
                    v_message = ''Authentication Validation: '' @ upper status\<rparr>))"

text \<open>A value inside an f-string: a string as it is, anything else as Python prints it.\<close>

definition format_value :: "env \<Rightarrow> pyval \<Rightarrow> string" where
  "format_value w v = (case v of PStr s \<Rightarrow> s | _ \<Rightarrow> py_format w v)"

definition type_name :: "pyval \<Rightarrow> string" where
  "type_name v =
     (case v of PNone \<Rightarrow> ''NoneType'' | PBool b \<Rightarrow> ''bool'' | PInt i \<Rightarrow> ''int''
      | PFloat x \<Rightarrow> ''float'' | PStr s \<Rightarrow> ''str'' | PList xs \<Rightarrow> ''list'' | PDict d \<Rightarrow> ''dict'')"

text \<open>The text of the AttributeError that \<^verbatim>\<open>v.get\<close> raises on a value with no \<^verbatim>\<open>get\<close>.\<close>

definition no_attribute_get :: "pyval \<Rightarrow> string" where
  "no_attribute_get v =
     [CHR 0x27] @ type_name v @ [CHR 0x27] @ '' object has no attribute ''
     @ [CHR 0x27] @ ''get'' @ [CHR 0x27]"

text \<open>
  \<^verbatim>\<open>DocumentValidationAgent.run_content_validation\<close>. The message is built inside
  the \<^verbatim>\<open>try\<close>, so a result that is not a dictionary ends in the \<^verbatim>\<open>except\<close> branch.
\<close>

definition run_content_validation :: "env \<Rightarrow> string \<Rightarrow> string \<Rightarrow> verdict" where
  "run_content_validation w key path =
     (case validate_content w key path of
        Inl (Exception msg) \<Rightarrow>
          \<lparr>v_status = ''error'', v_result = None,
           v_message = ''Content Validation Error: '' @ msg\<rparr>
      | Inr result \<Rightarrow>
          (case result of
             PDict d \<Rightarrow>
               \<lparr>v_status = ''success'', v_result = Some d,
                v_message = ''Content Validation: ''
                  @ format_value w (dict_get_default d ''status'' (PStr ''unknown''))\<rparr>
           | _ \<Rightarrow>
               \<lparr>v_status = ''error'', v_result = None,
                v_message = ''Content Validation Error: '' @ no_attribute_get result\<rparr>))"

text \<open>\<^verbatim>\<open>DocumentValidationAgent.run_authentication_validation\<close>.\<close>

definition run_authentication_validation :: "env \<Rightarrow> string \<Rightarrow> string \<Rightarrow> verdict" where
  "run_authentication_validation w key path =
     (case validate_authentication w key path of
        Inl (Exception msg) \<Rightarrow>
          \<lparr>v_status = ''error'', v_result = None,
           v_message = ''Authentication Validation Error: '' @ msg\<rparr>
      | Inr result \<Rightarrow>
          \<lparr>v_status = ''success'', v_result = v_result result,
           v_message = ''Authentication Validation: ''
             @ format_value w
                 (dict_get_default (case v_result result of None \<Rightarrow> [] | Some d \<Rightarrow> d)
                    ''status'' (PStr ''unknown''))\<rparr>)"

text \<open>
  The run state. The two verdict fields start as the empty dictionary, which is
  \<open>None\<close> here; a stage stores \<open>Some\<close> verdict.
\<close>

record ValidationState =
  input_path :: string
  api_key :: string
  content_validation_result :: "verdict option"
  authentication_validation_result :: "verdict option"
  final_decision :: string
  reasoning :: string

text \<open>
  The nodes of the workflow. The agent holds the credential the workflow was created
  with; it is the first argument of the two validation nodes.
\<close>

definition content_validation_node :: "env \<Rightarrow> string \<Rightarrow> ValidationState \<Rightarrow> ValidationState" where
  "content_validation_node w key state =
     (let result = run_content_validation w key (input_path state)
      in state\<lparr>content_validation_result := Some result,
               reasoning := ''Content validation: '' @ v_status result\<rparr>)"

definition authentication_validation_node :: "env \<Rightarrow> string \<Rightarrow> ValidationState \<Rightarrow> ValidationState" where
  "authentication_validation_node w key state =
     (let result = run_authentication_validation w key (input_path state)
      in state\<lparr>authentication_validation_result := Some result,
               reasoning := reasoning state @ '' | Authenticity validation: '' @ v_status result\<rparr>)"

text \<open>
  The test the decision node applies to each verdict: the status is
  \<^verbatim>\<open>"success"\<close>, the result is truthy (a dictionary that is not empty) and its
  \<^verbatim>\<open>status\<close> is \<^verbatim>\<open>"validated"\<close>. An empty verdict has no status.
\<close>

definition verdict_valid :: "verdict option \<Rightarrow> bool" where
  "verdict_valid r =
     (case r of
        None \<Rightarrow> False
      | Some v \<Rightarrow>
          v_status v = ''success''
          \<and> (case v_result v of None \<Rightarrow> False | Some d \<Rightarrow> d \<noteq> [])
          \<and> dict_get (case v_result v of None \<Rightarrow> [] | Some d \<Rightarrow> d) ''status'' = PStr ''validated'')"

text \<open>
  The four decisions. They start with U+2705, with U+26A0 U+FE0F (twice) and with
  U+274C.
\<close>

definition decision_valid :: string where
  "decision_valid = [CHR 0xE2, CHR 0x9C, CHR 0x85]
     @ '' Document is VALID - Passed both content and authenticity checks''"

definition decision_review_authenticity :: string where
  "decision_review_authenticity = [CHR 0xE2, CHR 0x9A, CHR 0xA0, CHR 0xEF, CHR 0xB8, CHR 0x8F]
     @ '' Document needs MANUAL REVIEW - Passed content but failed authenticity''"

definition decision_review_content :: string where
  "decision_review_content = [CHR 0xE2, CHR 0x9A, CHR 0xA0, CHR 0xEF, CHR 0xB8, CHR 0x8F]
     @ '' Document needs MANUAL REVIEW - Passed authenticity but failed content''"

definition decision_invalid :: string where
  "decision_invalid = [CHR 0xE2, CHR 0x9D, CHR 0x8C]
     @ '' Document is INVALID - Failed both content and authenticity checks''"

definition decision_node :: "ValidationState \<Rightarrow> ValidationState" where
  "decision_node state =
     (let content_valid = verdict_valid (content_validation_result state);
          auth_valid = verdict_valid (authentication_validation_result state);
          decision =
            (if content_valid \<and> auth_valid then decision_valid
             else if content_valid \<and> \<not> auth_valid then decision_review_authenticity
             else if \<not> content_valid \<and> auth_valid then decision_review_content
             else decision_invalid)
      in state\<lparr>final_decision := decision,
               reasoning := reasoning state @ '' | Final decision: '' @ decision\<rparr>)"

text \<open>
  The compiled graph: entry at the content node, then the authenticity node, then
  the decision node, then the end.
\<close>

definition workflow_invoke :: "env \<Rightarrow> string \<Rightarrow> ValidationState \<Rightarrow> ValidationState" where
  "workflow_invoke w key state =
     decision_node (authentication_validation_node w key (content_validation_node w key state))"

definition initial_state :: "string \<Rightarrow> string \<Rightarrow> ValidationState" where
  "initial_state key path =
     \<lparr>input_path = strip path,
      api_key = key,
      content_validation_result = None,
      authentication_validation_result = None,
      final_decision = [],
      reasoning = ''Starting validation process''\<rparr>"

definition run_document_validation :: "env \<Rightarrow> string \<Rightarrow> string \<Rightarrow> ValidationState" where
  "run_document_validation w key path = workflow_invoke w key (initial_state key path)"


section \<open>A sample world\<close>

text \<open>
  A concrete world on which the theorems below are exercised: a file
  \<^verbatim>\<open>report.pdf\<close>, a directory \<^verbatim>\<open>pages\<close> listed out of order, nothing else on
  disk; an OCR pipeline that fails; a Hijri converter that knows one date; an LLM
  whose completion is not JSON; and a PDF library that opens the given document.
\<close>

definition sample_fs :: "string \<Rightarrow> fsnode" where
  "sample_fs p =
     (if p = ''report.pdf'' then File (Inr ''%PDF-1.7'')
      else if p = ''pages'' then
        Dir [(''page2.md'', File (Inr ''second page'')),
             (''notes.txt'', File (Inr ''skipped'')),
             (''page1.md'', File (Inr ''first page''))]
            (Exception ''Is a directory'')
      else Absent (Exception ''No such file or directory''))"

definition sample_world :: "pdfdoc \<Rightarrow> env" where
  "sample_world pdf =
     \<lparr>fs_lookup = sample_fs,
      mkdtemp = Inr ''/tmp/content_val_1'',
      surya_available = True,
      ocr_pages = (\<lambda>path output_dir. Inl (Exception ''cannot render input'')),
      hijri_to_gregorian =
        (\<lambda>y m d. if y = 1445 \<and> m = 6 \<and> d = 15 then Inr ''2023-12-28''
                  else Inl (Exception ''date out of range'')),
      llm_ask = (\<lambda>key prompt_text. Inr ''  The document looks fine.  ''),
      json_loads = (\<lambda>s. Inl (Exception ''Expecting value'')),
      py_format = (\<lambda>v. ''?''),
      pdf_open = (\<lambda>path. Inr pdf)\<rparr>"

definition sample_pdf :: "bool \<Rightarrow> bool \<Rightarrow> exn option \<Rightarrow> pdfdoc" where
  "sample_pdf signed encrypted closing =
     \<lparr>doc_metadata = Inr [(''title'', ''Report'')],
      doc_pages = [Inr False, Inr signed],
      doc_is_encrypted = Inr encrypted,
      doc_close = closing\<rparr>"

section \<open>The decision table\<close>

lemma decisions_distinct:
  "decision_valid \<noteq> decision_review_authenticity"
  "decision_valid \<noteq> decision_review_content"
  "decision_valid \<noteq> decision_invalid"
  "decision_review_authenticity \<noteq> decision_review_content"
  "decision_review_authenticity \<noteq> decision_invalid"
  "decision_review_content \<noteq> decision_invalid"
  by (simp_all add: decision_valid_def decision_review_authenticity_def
        decision_review_content_def decision_invalid_def)

text \<open>
  The node's test asks for a truthy result where the specification asks for a result
  that is present. The two agree: an empty dictionary has no \<^verbatim>\<open>status\<close>.
\<close>

lemma verdict_valid_iff:
  "verdict_valid r \<longleftrightarrow>
     (\<exists>v d. r = Some v \<and> v_status v = ''success'' \<and> v_result v = Some d
            \<and> dict_get d ''status'' = PStr ''validated'')"
proof (cases r)
  case None
  then show ?thesis by (simp add: verdict_valid_def)
next
  case (Some v)
  show ?thesis
  proof (cases "v_result v")
    case None
    with Some show ?thesis by (simp add: verdict_valid_def)
  next
    case (Some d)
    have "dict_get d ''status'' = PStr ''validated'' \<Longrightarrow> d \<noteq> []"
      by (auto simp: dict_get_def)
    with Some \<open>r = Some v\<close> show ?thesis by (auto simp: verdict_valid_def)
  qed
qed

text \<open>
  Claim C1. Take \<open>content_valid\<close> to mean that the content verdict has status
  \<^verbatim>\<open>"success"\<close>, a result that is present, and the result's status is
  \<^verbatim>\<open>"validated"\<close>, and \<open>auth_valid\<close> the same of the authenticity verdict. For every
  run state the decision node produces the two by two table: both hold gives VALID,
  content only gives MANUAL REVIEW (passed content, failed authenticity), authenticity
  only gives MANUAL REVIEW (passed authenticity, failed content), neither gives
  INVALID. The decision is always one of these four texts, and the four differ.
\<close>

theorem decision_table:
  "(let content_valid =
          (\<exists>v d. content_validation_result state = Some v \<and> v_status v = ''success''
                 \<and> v_result v = Some d \<and> dict_get d ''status'' = PStr ''validated'');
        auth_valid =
          (\<exists>v d. authentication_validation_result state = Some v \<and> v_status v = ''success''
                 \<and> v_result v = Some d \<and> dict_get d ''status'' = PStr ''validated'')
    in final_decision (decision_node state) =
         (if content_valid \<and> auth_valid then decision_valid
          else if content_valid then decision_review_authenticity
          else if auth_valid then decision_review_content
          else decision_invalid))
   \<and> final_decision (decision_node state)
       \<in> {decision_valid, decision_review_authenticity, decision_review_content, decision_invalid}
   \<and> distinct [decision_valid, decision_review_authenticity, decision_review_content, decision_invalid]"
proof -
  let ?c = "\<exists>v d. content_validation_result state = Some v \<and> v_status v = ''success''
                 \<and> v_result v = Some d \<and> dict_get d ''status'' = PStr ''validated''"
  let ?a = "\<exists>v d. authentication_validation_result state = Some v \<and> v_status v = ''success''
                 \<and> v_result v = Some d \<and> dict_get d ''status'' = PStr ''validated''"
  have c: "?c = verdict_valid (content_validation_result state)"
    by (rule verdict_valid_iff [symmetric])
  have a: "?a = verdict_valid (authentication_validation_result state)"
    by (rule verdict_valid_iff [symmetric])
  have table: "final_decision (decision_node state) =
          (if ?c \<and> ?a then decision_valid
           else if ?c then decision_review_authenticity
           else if ?a then decision_review_content
           else decision_invalid)"
    unfolding c a by (simp add: decision_node_def Let_def)
  have one_of: "final_decision (decision_node state)
       \<in> {decision_valid, decision_review_authenticity, decision_review_content, decision_invalid}"
    by (simp add: decision_node_def Let_def)
  have differ: "distinct [decision_valid, decision_review_authenticity,
                          decision_review_content, decision_invalid]"
    using decisions_distinct by simp
  from table one_of differ show ?thesis
    unfolding Let_def by (intro conjI)
qed


section \<open>The reasoning log\<close>

text \<open>
  Claim C7, as stated, fails: the content node assigns the log instead of appending
  to it, so the text the run starts with is not kept. On the sample world the log
  after the content stage does not begin with the log before it.
\<close>

theorem reasoning_log_overwritten:
  "\<not> prefix (reasoning (initial_state ''key'' ''report.pdf''))
       (reasoning (content_validation_node (sample_world (sample_pdf True False None)) ''key''
          (initial_state ''key'' ''report.pdf'')))"
  by (simp add: content_validation_node_def initial_state_def Let_def)

text \<open>
  Claim C7, amended. The content stage sets the log to its own entry, whatever the
  log held before; the authenticity stage and the decision stage append their entry
  to the log they find. So the log of a run is the content entry, then the
  authenticity entry, then the final decision entry, in this order.
\<close>

theorem reasoning_log_order:
  "reasoning (content_validation_node w key state) =
     ''Content validation: '' @ v_status (run_content_validation w key (input_path state))
   \<and> reasoning (authentication_validation_node w key state) =
       reasoning state @ '' | Authenticity validation: ''
         @ v_status (run_authentication_validation w key (input_path state))
   \<and> reasoning (decision_node state) =
       reasoning state @ '' | Final decision: '' @ final_decision (decision_node state)
   \<and> reasoning (run_document_validation w key path) =
       ''Content validation: '' @ v_status (run_content_validation w key (strip path))
       @ '' | Authenticity validation: '' @ v_status (run_authentication_validation w key (strip path))
       @ '' | Final decision: '' @ final_decision (run_document_validation w key path)"
proof (intro conjI)
  show "reasoning (content_validation_node w key state) =
     ''Content validation: '' @ v_status (run_content_validation w key (input_path state))"
    by (simp add: content_validation_node_def Let_def)
  show "reasoning (authentication_validation_node w key state) =
       reasoning state @ '' | Authenticity validation: ''
         @ v_status (run_authentication_validation w key (input_path state))"
    by (simp add: authentication_validation_node_def Let_def)
  show "reasoning (decision_node state) =
       reasoning state @ '' | Final decision: '' @ final_decision (decision_node state)"
    by (simp add: decision_node_def Let_def)
  show "reasoning (run_document_validation w key path) =
       ''Content validation: '' @ v_status (run_content_validation w key (strip path))
       @ '' | Authenticity validation: '' @ v_status (run_authentication_validation w key (strip path))
       @ '' | Final decision: '' @ final_decision (run_document_validation w key path)"
    by (simp add: run_document_validation_def workflow_invoke_def decision_node_def
          authentication_validation_node_def content_validation_node_def initial_state_def Let_def)
qed

section \<open>The verdicts of the two stages\<close>

lemma validate_authentication_Inr:
  "validate_authentication w key path = Inr v \<Longrightarrow> v_status v = ''success'' \<and> v_result v \<noteq> None"
  by (auto simp: validate_authentication_def split: sum.splits if_splits)

text \<open>
  Claim C8. A verdict that the content stage or the authenticity stage hands to the
  pipeline has no result when its status is \<^verbatim>\<open>"error"\<close> and has a result when its
  status is \<^verbatim>\<open>"success"\<close>.
\<close>

theorem verdict_status_result:
  "(v_status (run_content_validation w key path) = ''error''
      \<longrightarrow> v_result (run_content_validation w key path) = None)
   \<and> (v_status (run_content_validation w key path) = ''success''
      \<longrightarrow> v_result (run_content_validation w key path) \<noteq> None)
   \<and> (v_status (run_authentication_validation w key path) = ''error''
      \<longrightarrow> v_result (run_authentication_validation w key path) = None)
   \<and> (v_status (run_authentication_validation w key path) = ''success''
      \<longrightarrow> v_result (run_authentication_validation w key path) \<noteq> None)"
proof -
  have content: "(v_status (run_content_validation w key path) = ''error''
                    \<and> v_result (run_content_validation w key path) = None)
               \<or> (v_status (run_content_validation w key path) = ''success''
                    \<and> v_result (run_content_validation w key path) \<noteq> None)"
    by (simp add: run_content_validation_def split: sum.splits exn.splits pyval.splits)
  have auth: "(v_status (run_authentication_validation w key path) = ''error''
                    \<and> v_result (run_authentication_validation w key path) = None)
               \<or> (v_status (run_authentication_validation w key path) = ''success''
                    \<and> v_result (run_authentication_validation w key path) \<noteq> None)"
    using validate_authentication_Inr [of w key path]
    by (auto simp add: run_authentication_validation_def split: sum.splits exn.splits)
  from content auth show ?thesis by auto
qed

text \<open>
  On the sample world: reading a missing markdown file is a content error, a failed
  extraction is a content success whose result carries the error, a document that
  cannot be closed is an authenticity error, and an inspected document is an
  authenticity success.
\<close>

theorem verdict_status_result_witness:
  "v_status (run_content_validation (sample_world (sample_pdf True False None)) ''key'' ''missing.md'') = ''error''
   \<and> v_result (run_content_validation (sample_world (sample_pdf True False None)) ''key'' ''missing.md'') = None
   \<and> v_status (run_content_validation (sample_world (sample_pdf True False None)) ''key'' ''report.pdf'') = ''success''
   \<and> v_result (run_content_validation (sample_world (sample_pdf True False None)) ''key'' ''report.pdf'') \<noteq> None
   \<and> v_status (run_authentication_validation (sample_world (sample_pdf True False (Some (Exception ''closed twice'')))) ''key'' ''report.pdf'') = ''error''
   \<and> v_result (run_authentication_validation (sample_world (sample_pdf True False (Some (Exception ''closed twice'')))) ''key'' ''report.pdf'') = None
   \<and> v_status (run_authentication_validation (sample_world (sample_pdf True False None)) ''key'' ''report.pdf'') = ''success''
   \<and> v_result (run_authentication_validation (sample_world (sample_pdf True False None)) ''key'' ''report.pdf'') \<noteq> None"
proof -
  have e1: "v_status (run_content_validation (sample_world (sample_pdf True False None)) ''key'' ''missing.md'') = ''error''"
    by code_simp
  have s1: "v_status (run_content_validation (sample_world (sample_pdf True False None)) ''key'' ''report.pdf'') = ''success''"
    by code_simp
  have e2: "v_status (run_authentication_validation (sample_world (sample_pdf True False (Some (Exception ''closed twice'')))) ''key'' ''report.pdf'') = ''error''"
    by code_simp
  have s2: "v_status (run_authentication_validation (sample_world (sample_pdf True False None)) ''key'' ''report.pdf'') = ''success''"
    by code_simp
  show ?thesis
    using e1 s1 e2 s2
      verdict_status_result [of "sample_world (sample_pdf True False None)" "''key''" "''missing.md''"]
      verdict_status_result [of "sample_world (sample_pdf True False None)" "''key''" "''report.pdf''"]
      verdict_status_result [of "sample_world (sample_pdf True False (Some (Exception ''closed twice'')))" "''key''" "''report.pdf''"]
    by simp
qed

section \<open>The authenticity validator\<close>









lemma authenticate_pdf_raises_iff:
  "(\<exists>e. authenticate_pdf w p = Inl e) \<longleftrightarrow>
     (path_exists (fs_lookup w p) \<and> (\<exists>pdf e. pdf_open w p = Inr pdf \<and> doc_close pdf = Some e))"
  by (auto simp: authenticate_pdf_def Let_def split: sum.splits exn.splits option.splits)

lemma validate_authentication_raises_iff:
  "(\<exists>e. validate_authentication w key p = Inl e) \<longleftrightarrow> (\<exists>e. authenticate_pdf w p = Inl e)"
  by (auto simp: validate_authentication_def split: sum.splits prod.splits)

text \<open>
  Claim C10. Whenever \<^verbatim>\<open>validate_authentication\<close> returns, the verdict has status
  \<^verbatim>\<open>"success"\<close> and a result. It raises only when closing the opened document
  raises, which happens in the \<^verbatim>\<open>finally\<close> clause, outside what
  \<^verbatim>\<open>authenticate_pdf\<close> catches. The supervisor's stage reports status \<^verbatim>\<open>"error"\<close>
  exactly when \<^verbatim>\<open>validate_authentication\<close> raised. So for the verdict of the
  authenticity stage the decision node's test holds exactly when the result's status is
  \<^verbatim>\<open>"validated"\<close>.
\<close>

theorem authenticity_verdict_always_success:
  "(\<forall>v. validate_authentication w key p = Inr v \<longrightarrow> v_status v = ''success'' \<and> v_result v \<noteq> None)
   \<and> ((\<exists>e. validate_authentication w key p = Inl e) \<longleftrightarrow>
        (path_exists (fs_lookup w p) \<and> (\<exists>pdf e. pdf_open w p = Inr pdf \<and> doc_close pdf = Some e)))
   \<and> (v_status (run_authentication_validation w key p) = ''error'' \<longleftrightarrow>
        (\<exists>e. validate_authentication w key p = Inl e))
   \<and> (verdict_valid (Some (run_authentication_validation w key p)) \<longleftrightarrow>
        (\<exists>d. v_result (run_authentication_validation w key p) = Some d
             \<and> dict_get d ''status'' = PStr ''validated''))"
proof (intro conjI)
  show "\<forall>v. validate_authentication w key p = Inr v \<longrightarrow> v_status v = ''success'' \<and> v_result v \<noteq> None"
    using validate_authentication_Inr by blast
  show "(\<exists>e. validate_authentication w key p = Inl e) \<longleftrightarrow>
        (path_exists (fs_lookup w p) \<and> (\<exists>pdf e. pdf_open w p = Inr pdf \<and> doc_close pdf = Some e))"
    by (simp only: validate_authentication_raises_iff authenticate_pdf_raises_iff)
  show "v_status (run_authentication_validation w key p) = ''error'' \<longleftrightarrow>
        (\<exists>e. validate_authentication w key p = Inl e)"
    by (auto simp: run_authentication_validation_def split: sum.splits exn.splits)
  have "v_status (run_authentication_validation w key p) = ''success''
        \<or> v_result (run_authentication_validation w key p) = None"
    by (auto simp: run_authentication_validation_def split: sum.splits exn.splits)
  then show "verdict_valid (Some (run_authentication_validation w key p)) \<longleftrightarrow>
        (\<exists>d. v_result (run_authentication_validation w key p) = Some d
             \<and> dict_get d ''status'' = PStr ''validated'')"
    by (auto simp: verdict_valid_iff)
qed

theorem authenticity_verdict_always_success_witness:
  "(\<exists>v. validate_authentication (sample_world (sample_pdf True False None)) ''key'' ''report.pdf'' = Inr v
        \<and> v_status v = ''success'' \<and> v_result v \<noteq> None)
   \<and> v_status (run_authentication_validation
         (sample_world (sample_pdf True False (Some (Exception ''closed twice'')))) ''key'' ''report.pdf'') = ''error''
   \<and> verdict_valid (Some (run_authentication_validation
         (sample_world (sample_pdf True False None)) ''key'' ''report.pdf''))"
proof -
  let ?good = "sample_world (sample_pdf True False None)"
  let ?bad = "sample_world (sample_pdf True False (Some (Exception ''closed twice'')))"
  note good = authenticity_verdict_always_success [of ?good "''key''" "''report.pdf''"]
  note bad = authenticity_verdict_always_success [of ?bad "''key''" "''report.pdf''"]
  have "\<not> (\<exists>pdf e. pdf_open ?good ''report.pdf'' = Inr pdf \<and> doc_close pdf = Some e)"
    by (simp add: sample_world_def sample_pdf_def)
  with good have "\<not> (\<exists>e. validate_authentication ?good ''key'' ''report.pdf'' = Inl e)"
    by blast
  then obtain v where v: "validate_authentication ?good ''key'' ''report.pdf'' = Inr v"
    by (cases "validate_authentication ?good ''key'' ''report.pdf''") auto
  with good have first: "\<exists>v. validate_authentication ?good ''key'' ''report.pdf'' = Inr v
        \<and> v_status v = ''success'' \<and> v_result v \<noteq> None"
    by blast
  have "path_exists (fs_lookup ?bad ''report.pdf'')
        \<and> (\<exists>pdf e. pdf_open ?bad ''report.pdf'' = Inr pdf \<and> doc_close pdf = Some e)"
    by (simp add: sample_world_def sample_pdf_def sample_fs_def path_exists_def)
  with bad have second: "v_status (run_authentication_validation ?bad ''key'' ''report.pdf'') = ''error''"
    by blast
  have "case v_result (run_authentication_validation ?good ''key'' ''report.pdf'') of
          None \<Rightarrow> False | Some d \<Rightarrow> dict_get d ''status'' = PStr ''validated''"
    by code_simp
  then have "\<exists>d. v_result (run_authentication_validation ?good ''key'' ''report.pdf'') = Some d
             \<and> dict_get d ''status'' = PStr ''validated''"
    by (simp split: option.splits)
  with good have third: "verdict_valid (Some (run_authentication_validation ?good ''key'' ''report.pdf''))"
    by blast
  from first second third show ?thesis by (intro conjI)
qed


section \<open>The content validator\<close>

text \<open>
  Claim C4. When the LLM returns a completion that \<^verbatim>\<open>json.loads\<close> rejects, the
  content validation step returns the fallback verdict, status "not validated" and
  final decision "Invalid", and does not raise. The pipeline is not aborted: for an
  input whose text was loaded, the content stage reports success with the fallback as
  its result.
\<close>

theorem malformed_completion_fallback:
  assumes "llm_ask w key (prompt txt) = Inr completion"
    and "json_loads w (strip completion) = Inl e"
  shows "validate_document w key txt
           = Inr (PDict [(''status'', PStr ''not validated''), (''final_decision'', PStr ''Invalid'')])
         \<and> (\<forall>path combined_text.
               load_combined_text w path = Inr (Inr combined_text)
               \<and> convert_hijri_to_gregorian w combined_text = txt \<longrightarrow>
               run_content_validation w key path =
                 \<lparr>v_status = ''success'',
                  v_result = Some [(''status'', PStr ''not validated''),
                                   (''final_decision'', PStr ''Invalid'')],
                  v_message = ''Content Validation: not validated''\<rparr>)"
proof -
  have doc: "validate_document w key txt = Inr (PDict fallback_result)"
    using assms by (simp add: validate_document_def)
  have "run_content_validation w key path =
          \<lparr>v_status = ''success'', v_result = Some fallback_result,
           v_message = ''Content Validation: not validated''\<rparr>"
    if "load_combined_text w path = Inr (Inr combined_text)"
      and "convert_hijri_to_gregorian w combined_text = txt" for path combined_text
    using that doc
    by (simp add: run_content_validation_def validate_content_def fallback_result_def
          dict_get_default_def format_value_def)
  with doc show ?thesis
    by (simp add: fallback_result_def)
qed

text \<open>
  On the sample world the completion is prose, and the directory \<^verbatim>\<open>pages\<close> is
  the input.
\<close>

theorem malformed_completion_fallback_witness:
  "validate_document (sample_world (sample_pdf True False None)) ''key''
       (''first page'' @ [CHR 0x0A, CHR 0x0A] @ ''second page'')
     = Inr (PDict [(''status'', PStr ''not validated''), (''final_decision'', PStr ''Invalid'')])
   \<and> run_content_validation (sample_world (sample_pdf True False None)) ''key'' ''pages'' =
        \<lparr>v_status = ''success'',
         v_result = Some [(''status'', PStr ''not validated''), (''final_decision'', PStr ''Invalid'')],
         v_message = ''Content Validation: not validated''\<rparr>"
proof -
  let ?w = "sample_world (sample_pdf True False None)"
  let ?txt = "''first page'' @ [CHR 0x0A, CHR 0x0A] @ ''second page''"
  have ask: "llm_ask ?w ''key'' (prompt ?txt) = Inr ''  The document looks fine.  ''"
    by (simp add: sample_world_def)
  have loads: "json_loads ?w (strip ''  The document looks fine.  '') = Inl (Exception ''Expecting value'')"
    by (simp add: sample_world_def)
  have load: "load_combined_text ?w ''pages'' = Inr (Inr ?txt)"
    by code_simp
  have conv: "convert_hijri_to_gregorian ?w ?txt = ?txt"
    by code_simp
  from malformed_completion_fallback [OF ask loads] load conv show ?thesis
    by blast
qed




subsection \<open>Markdown files of a directory\<close>





subsection \<open>The Hijri date pass on a date written with dashes\<close>

lemma findall_dash_date: "findall ''15-6-1445'' = [(''15'', ''6'', ''1445'', [])]"
  by code_simp

lemma replace_slash_in_dash_date: "replace ''15/6/1445'' g ''15-6-1445'' = ''15-6-1445''"
  by simp

text \<open>
  Claim C6 on the text \<^verbatim>\<open>15-6-1445\<close>. The pattern matches the whole text, and in
  the sample world the conversion of 15/6/1445 succeeds; yet in every world the pass
  returns the text as it was, because the loop looks for the date rebuilt with
  slashes. The same date written with slashes is replaced, and a Hijri marker after
  it stays in the text.
\<close>

theorem dash_date_left_unconverted:
  "findall ''15-6-1445'' = [(''15'', ''6'', ''1445'', [])]
   \<and> hijri_to_gregorian (sample_world (sample_pdf True False None))
         (py_int ''1445'') (py_int ''6'') (py_int ''15'') = Inr ''2023-12-28''
   \<and> convert_hijri_to_gregorian w ''15-6-1445'' = ''15-6-1445''
   \<and> convert_hijri_to_gregorian (sample_world (sample_pdf True False None)) ''15/6/1445''
       = ''2023-12-28''
   \<and> convert_hijri_to_gregorian (sample_world (sample_pdf True False None))
         (''15/6/1445 '' @ hijri_abbrev) = ''2023-12-28 '' @ hijri_abbrev"
proof (intro conjI)
  show "findall ''15-6-1445'' = [(''15'', ''6'', ''1445'', [])]"
    by (rule findall_dash_date)
  show "hijri_to_gregorian (sample_world (sample_pdf True False None))
         (py_int ''1445'') (py_int ''6'') (py_int ''15'') = Inr ''2023-12-28''"
    by code_simp
  show "convert_hijri_to_gregorian w ''15-6-1445'' = ''15-6-1445''"
    unfolding convert_hijri_to_gregorian_def findall_dash_date
    by (simp add: hijri_step_def replace_slash_in_dash_date split: sum.splits)
  show "convert_hijri_to_gregorian (sample_world (sample_pdf True False None)) ''15/6/1445''
       = ''2023-12-28''"
    by code_simp
  show "convert_hijri_to_gregorian (sample_world (sample_pdf True False None))
         (''15/6/1445 '' @ hijri_abbrev) = ''2023-12-28 '' @ hijri_abbrev"
    by code_simp
qed

end
